theory Spec2Isabelle
  imports Main
begin

section \<open>JavaScript values\<close>

text \<open>
  The background script of the extension is JavaScript, so the identifiers it receives
  are JavaScript values. The model covers the primitive values and the two kinds of
  object a property read on a plain object can return without any assignment:
  \<^item> \<open>JInt n\<close>: a Number whose value is the integer \<open>n\<close> (\<open>-0\<close> and \<open>0\<close> are both
    \<open>JInt 0\<close>). Tab and window identifiers of the host are such numbers; the model
    reads them in the range where JavaScript prints an integral Number in plain
    decimal (magnitude below \<open>10^21\<close>).
  \<^item> \<open>JFrac s\<close>: a finite Number that is not integral, identified by its decimal
    rendering \<open>s\<close> (\<open>1.5\<close> is \<open>JFrac ''1.5''\<close>): the script only tests such a number
    with \<open>Number.isInteger\<close> or uses it as a property key.
  \<^item> \<open>JNaN\<close>, \<open>JInfinity positive\<close>: the remaining Numbers.
  \<^item> \<open>JFunction n\<close>: the built-in function named \<open>n\<close>; \<open>JObject\<close>: a plain object
    with the default \<open>toString\<close>. They are what \<open>Object.prototype\<close> holds.
\<close>

datatype jsval =
    JUndefined
  | JNull
  | JBool bool
  | JInt int
  | JFrac string
  | JNaN
  | JInfinity bool
  | JStr string
  | JFunction string
  | JObject

text \<open>\<open>Number.isInteger\<close>.\<close>

fun isInteger :: "jsval \<Rightarrow> bool" where
  "isInteger (JInt n) = True"
| "isInteger v = False"

text \<open>\<open>ToBoolean\<close>: what \<open>!!v\<close>, \<open>if (v)\<close>, \<open>v || w\<close> and \<open>v && w\<close> test.\<close>

fun truthy :: "jsval \<Rightarrow> bool" where
  "truthy JUndefined = False"
| "truthy JNull = False"
| "truthy (JBool b) = b"
| "truthy (JInt n) = (n \<noteq> 0)"
| "truthy (JFrac s) = True"
| "truthy JNaN = False"
| "truthy (JInfinity p) = True"
| "truthy (JStr s) = (s \<noteq> [])"
| "truthy (JFunction n) = True"
| "truthy JObject = True"

text \<open>\<open>v || w\<close> is \<open>v\<close> when \<open>v\<close> is truthy and \<open>w\<close> otherwise.\<close>

definition js_or :: "jsval \<Rightarrow> jsval \<Rightarrow> jsval" where
  "js_or v w = (if truthy v then v else w)"

text \<open>\<open>v === w\<close>: equal values of the same type, except that \<open>NaN\<close> equals nothing.\<close>

definition strict_eq :: "jsval \<Rightarrow> jsval \<Rightarrow> bool" where
  "strict_eq v w = (v = w \<and> v \<noteq> JNaN)"

subsection \<open>Property keys\<close>

text \<open>
  A property key is a string; \<open>obj[v]\<close> converts \<open>v\<close> with \<open>ToString\<close>. An integral
  Number prints as its decimal digits, with a minus sign when negative.
\<close>

definition digit_char :: "nat \<Rightarrow> char" where
  "digit_char d = ''0123456789'' ! d"

fun show_nat :: "nat \<Rightarrow> string" where
  "show_nat n = (if n < 10 then [digit_char n] else show_nat (n div 10) @ [digit_char (n mod 10)])"

definition show_int :: "int \<Rightarrow> string" where
  "show_int i = (if i < 0 then CHR ''-'' # show_nat (nat (- i)) else show_nat (nat i))"

fun ToString :: "jsval \<Rightarrow> string" where
  "ToString JUndefined = ''undefined''"
| "ToString JNull = ''null''"
| "ToString (JBool b) = (if b then ''true'' else ''false'')"
| "ToString (JInt n) = show_int n"
| "ToString (JFrac s) = s"
| "ToString JNaN = ''NaN''"
| "ToString (JInfinity p) = (if p then ''Infinity'' else ''-Infinity'')"
| "ToString (JStr s) = s"
| "ToString (JFunction n) = ''function '' @ n @ ''() { [native code] }''"
| "ToString JObject = ''[object Object]''"

subsection \<open>Plain objects\<close>

text \<open>
  An object created by the literal \<open>{}\<close> has no own property and inherits those of
  \<open>Object.prototype\<close>. Its own properties are a map from keys to values.
\<close>

type_synonym jsobject = "string \<rightharpoonup> jsval"

definition Object_prototype :: jsobject where
  "Object_prototype = map_of
     [(''constructor'', JFunction ''Object''),
      (''__defineGetter__'', JFunction ''__defineGetter__''),
      (''__defineSetter__'', JFunction ''__defineSetter__''),
      (''hasOwnProperty'', JFunction ''hasOwnProperty''),
      (''__lookupGetter__'', JFunction ''__lookupGetter__''),
      (''__lookupSetter__'', JFunction ''__lookupSetter__''),
      (''isPrototypeOf'', JFunction ''isPrototypeOf''),
      (''propertyIsEnumerable'', JFunction ''propertyIsEnumerable''),
      (''toString'', JFunction ''toString''),
      (''valueOf'', JFunction ''valueOf''),
      (''__proto__'', JObject),
      (''toLocaleString'', JFunction ''toLocaleString'')]"

text \<open>\<open>obj[v]\<close>: the own property, else the inherited one, else \<open>undefined\<close>.\<close>

definition get_prop :: "jsobject \<Rightarrow> jsval \<Rightarrow> jsval" where
  "get_prop obj v =
     (case obj (ToString v) of
        Some w \<Rightarrow> w
      | None \<Rightarrow> (case Object_prototype (ToString v) of Some w \<Rightarrow> w | None \<Rightarrow> JUndefined))"

text \<open>\<open>obj[v] = w\<close> for a key that \<open>Object.prototype\<close> does not hold as a setter.\<close>

definition set_prop :: "jsobject \<Rightarrow> jsval \<Rightarrow> jsval \<Rightarrow> jsobject" where
  "set_prop obj v w = obj(ToString v \<mapsto> w)"

text \<open>\<open>delete obj[v]\<close> removes the own property and nothing inherited.\<close>

definition delete_prop :: "jsobject \<Rightarrow> jsval \<Rightarrow> jsobject" where
  "delete_prop obj v = obj(ToString v := None)"

section \<open>The pairing store: class MobileDesktopPairings\<close>

text \<open>
  The class of \<open>background-main.js\<close>, lines 7 to 67, with its fields
  \<open>_keyedByDesktop\<close> and \<open>_keyedByMobile\<close>. A method that can throw returns the
  thrown error or its value; a method that assigns also returns the store as the call
  leaves it, whether it threw or not. The two messages are those of the \<open>Error\<close> objects
  the integer checks throw.
\<close>

record MobileDesktopPairings =
  keyedByDesktop :: jsobject
  keyedByMobile :: jsobject

datatype error = Error string

definition constructor :: MobileDesktopPairings where
  "constructor = \<lparr>keyedByDesktop = Map.empty, keyedByMobile = Map.empty\<rparr>"

text \<open>Lines 18 to 24: the check, then the two assignments.\<close>

definition addPair ::
  "MobileDesktopPairings \<Rightarrow> jsval \<Rightarrow> jsval \<Rightarrow> (error + unit) \<times> MobileDesktopPairings" where
  "addPair this desktopTabId mobileTabId =
     (if \<not> isInteger desktopTabId \<or> \<not> isInteger mobileTabId
      then (Inl (Error ''Tried to insert non-integer into MobileDesktopPairings''), this)
      else (Inr (),
            this\<lparr>keyedByDesktop := set_prop (keyedByDesktop this) desktopTabId mobileTabId,
                 keyedByMobile := set_prop (keyedByMobile this) mobileTabId desktopTabId\<rparr>))"

text \<open>Lines 26 to 31: the desktop side is read first; \<open>false\<close> when both reads are falsy.\<close>

definition getCorrespondingTab :: "MobileDesktopPairings \<Rightarrow> jsval \<Rightarrow> error + jsval" where
  "getCorrespondingTab this tabId =
     (if \<not> isInteger tabId then Inl (Error ''Given Tab Id is not an integer'')
      else Inr (js_or (js_or (get_prop (keyedByDesktop this) tabId)
                         (get_prop (keyedByMobile this) tabId))
                  (JBool False)))"

text \<open>Lines 33 to 38.\<close>

definition contains :: "MobileDesktopPairings \<Rightarrow> jsval \<Rightarrow> error + bool" where
  "contains this tabId =
     (if \<not> isInteger tabId then Inl (Error ''Given Tab Id is not an integer'')
      else (case getCorrespondingTab this tabId of
              Inl e \<Rightarrow> Inl e
            | Inr v \<Rightarrow> Inr (truthy v)))"

text \<open>Lines 44 to 50: the same key is deleted from both objects.\<close>

definition removeTabPair ::
  "MobileDesktopPairings \<Rightarrow> jsval \<Rightarrow> (error + unit) \<times> MobileDesktopPairings" where
  "removeTabPair this eitherTabId =
     (if \<not> isInteger eitherTabId then (Inl (Error ''Given Tab Id is not an integer''), this)
      else (Inr (),
            this\<lparr>keyedByDesktop := delete_prop (keyedByDesktop this) eitherTabId,
                 keyedByMobile := delete_prop (keyedByMobile this) eitherTabId\<rparr>))"

text \<open>Lines 55 to 58 and 64 to 66.\<close>

definition clearPairings :: "MobileDesktopPairings \<Rightarrow> MobileDesktopPairings" where
  "clearPairings this = this\<lparr>keyedByDesktop := Map.empty, keyedByMobile := Map.empty\<rparr>"

definition isDesktopTab :: "MobileDesktopPairings \<Rightarrow> jsval \<Rightarrow> bool" where
  "isDesktopTab this tabId = truthy (get_prop (keyedByDesktop this) tabId)"

subsection \<open>The stores a program can build\<close>

text \<open>
  A store is reachable when it is the new store or the result of a call of \<open>addPair\<close>,
  \<open>removeTabPair\<close> or \<open>clearPairings\<close> on a reachable store, with any arguments: a call
  that throws leaves the store it was given.
\<close>

inductive reachable :: "MobileDesktopPairings \<Rightarrow> bool" where
  reachable_new: "reachable constructor"
| reachable_addPair: "reachable s \<Longrightarrow> reachable (snd (addPair s a b))"
| reachable_removeTabPair: "reachable s \<Longrightarrow> reachable (snd (removeTabPair s x))"
| reachable_clearPairings: "reachable s \<Longrightarrow> reachable (clearPairings s)"

text \<open>
  Every own property of the object is the key of an integer and holds an integer: the
  object is a map from identifiers to identifiers.
\<close>

definition integer_entries :: "jsobject \<Rightarrow> bool" where
  "integer_entries obj = (\<forall>k v. obj k = Some v \<longrightarrow> (\<exists>a b. k = show_int a \<and> v = JInt b))"

definition integer_store :: "MobileDesktopPairings \<Rightarrow> bool" where
  "integer_store s = (integer_entries (keyedByDesktop s) \<and> integer_entries (keyedByMobile s))"

subsection \<open>Pairs\<close>

text \<open>
  The store holds the pair of the desktop tab \<open>d\<close> and the mobile tab \<open>m\<close> when at least
  one direction records it: \<open>_keyedByDesktop[d]\<close> is \<open>m\<close>, or \<open>_keyedByMobile[m]\<close> is \<open>d\<close>.
\<close>

definition paired :: "MobileDesktopPairings \<Rightarrow> int \<Rightarrow> int \<Rightarrow> bool" where
  "paired s d m = (keyedByDesktop s (show_int d) = Some (JInt m)
                   \<or> keyedByMobile s (show_int m) = Some (JInt d))"

text \<open>
  The relation is one to one when each identifier appears in at most one pair: two
  pairs of the store that share an identifier, on either side, are the same pair.
\<close>

definition one_to_one :: "MobileDesktopPairings \<Rightarrow> bool" where
  "one_to_one s = (\<forall>d m d' m'. paired s d m \<and> paired s d' m'
       \<and> (d = d' \<or> d = m' \<or> m = d' \<or> m = m') \<longrightarrow> d = d' \<and> m = m')"

text \<open>
  \<open>a\<close> and \<open>b\<close> can be added as a pair when neither occurs in a pair of the store other
  than the pair of \<open>a\<close> and \<open>b\<close> itself. The listeners call \<open>addPair\<close> with the identifier
  of a tab the host has just created, which occurs in no pair.
\<close>

definition addable :: "MobileDesktopPairings \<Rightarrow> int \<Rightarrow> int \<Rightarrow> bool" where
  "addable s a b = (\<forall>d m. paired s d m \<and> (d = a \<or> m = a \<or> d = b \<or> m = b)
       \<longrightarrow> d = a \<and> m = b)"

text \<open>
  The stores reachable by \<open>removeTabPair\<close> and \<open>clearPairings\<close> with any argument and by
  \<open>addPair\<close> with identifiers that can be added. (A call of \<open>addPair\<close> that throws leaves
  the store it was given.)
\<close>

inductive reachable_fresh :: "MobileDesktopPairings \<Rightarrow> bool" where
  fresh_new: "reachable_fresh constructor"
| fresh_addPair:
    "reachable_fresh s \<Longrightarrow> addable s a b \<Longrightarrow> reachable_fresh (snd (addPair s (JInt a) (JInt b)))"
| fresh_removeTabPair: "reachable_fresh s \<Longrightarrow> reachable_fresh (snd (removeTabPair s x))"
| fresh_clearPairings: "reachable_fresh s \<Longrightarrow> reachable_fresh (clearPairings s)"

text \<open>
  The tab \<open>t\<close> has a pair in the store, with partner \<open>p\<close>, when the store holds an entry
  under the key \<open>t\<close> in one of its directions and \<open>p\<close> is the value of that entry.
\<close>

definition has_pair :: "MobileDesktopPairings \<Rightarrow> int \<Rightarrow> jsval \<Rightarrow> bool" where
  "has_pair s t p =
     (keyedByDesktop s (show_int t) = Some p \<or> keyedByMobile s (show_int t) = Some p)"

section \<open>Session state and the commands sent to the host\<close>

text \<open>
  The variables of the script's closure, lines 70 to 80: the store \<open>tabPairs\<close>, the identifiers of the
  two windows (undefined until a session starts), the guard \<open>newTabBeingCreated\<close> and
  \<open>focusedWindowId\<close>.
\<close>

record state =
  tabPairs :: MobileDesktopPairings
  desktopWindowId :: jsval
  mobileWindowId :: jsval
  newTabBeingCreated :: bool
  focusedWindowId :: jsval

definition initial :: state where
  "initial = \<lparr>tabPairs = constructor, desktopWindowId = JUndefined,
     mobileWindowId = JUndefined, newTabBeingCreated = False, focusedWindowId = JUndefined\<rparr>"

text \<open>A tab as the host reports it: the fields the script reads.\<close>

record tab =
  tab_id :: jsval
  windowId :: jsval
  url :: jsval

text \<open>
  A listener runs to completion and calls the host; the calls it makes are listed in
  order as commands. A call with a callback carries what the callback has captured:
  the callback of \<open>chrome.tabs.create\<close> has captured the user's tab id and url and which
  window the user's tab is in, the callback of the \<open>chrome.tabs.update\<close> that follows
  has captured the two arguments of its \<open>addPair\<close>.
\<close>

datatype update_callback = ThenAddPair jsval jsval

datatype create_callback = UserTabInDesktop jsval jsval | UserTabInMobile jsval jsval

datatype command =
    TabsCreate jsval create_callback
  | TabsUpdateUrl jsval jsval "update_callback option"
  | TabsSendMessage jsval jsobject
  | ConsoleLog string

section \<open>The listeners\<close>

subsection \<open>chrome.tabs.onCreated\<close>

text \<open>
  Lines 83 to 105. The listener itself tests the guard and the window, sets the guard
  and calls \<open>chrome.tabs.create\<close>; the rest happens in the two callbacks.
\<close>

definition tabs_onCreated :: "state \<Rightarrow> tab \<Rightarrow> command list \<times> state" where
  "tabs_onCreated st newUserTab =
     (let newTabUrl = url newUserTab in
      if \<not> newTabBeingCreated st \<and> strict_eq (windowId newUserTab) (desktopWindowId st)
      then ([TabsCreate (mobileWindowId st) (UserTabInDesktop (tab_id newUserTab) newTabUrl)],
            st\<lparr>newTabBeingCreated := True\<rparr>)
      else if \<not> newTabBeingCreated st \<and> strict_eq (windowId newUserTab) (mobileWindowId st)
      then ([TabsCreate (desktopWindowId st) (UserTabInMobile (tab_id newUserTab) newTabUrl)],
            st\<lparr>newTabBeingCreated := True\<rparr>)
      else ([], st))"

text \<open>The callback of \<open>chrome.tabs.create\<close>, called with the tab the host created.\<close>

fun tabs_create_done :: "create_callback \<Rightarrow> tab \<Rightarrow> command list" where
  "tabs_create_done (UserTabInDesktop userTabId newTabUrl) newProgrammaticTab =
     [TabsUpdateUrl (tab_id newProgrammaticTab) newTabUrl
        (Some (ThenAddPair userTabId (tab_id newProgrammaticTab)))]"
| "tabs_create_done (UserTabInMobile userTabId newTabUrl) newProgrammaticTab =
     [TabsUpdateUrl (tab_id newProgrammaticTab) newTabUrl
        (Some (ThenAddPair (tab_id newProgrammaticTab) userTabId))]"

text \<open>
  The callback of that \<open>chrome.tabs.update\<close>: it records the pair and then releases the
  guard; when \<open>addPair\<close> throws, the guard stays set.
\<close>

fun tabs_update_done :: "state \<Rightarrow> update_callback \<Rightarrow> (error + unit) \<times> state" where
  "tabs_update_done st (ThenAddPair desktopTabId mobileTabId) =
     (case addPair (tabPairs st) desktopTabId mobileTabId of
        (Inl e, pairs) \<Rightarrow> (Inl e, st\<lparr>tabPairs := pairs\<rparr>)
      | (Inr u, pairs) \<Rightarrow> (Inr (), st\<lparr>tabPairs := pairs, newTabBeingCreated := False\<rparr>))"

subsection \<open>chrome.windows.onFocusChanged and chrome.tabs.onUpdated\<close>

definition windows_onFocusChanged :: "state \<Rightarrow> jsval \<Rightarrow> state" where
  "windows_onFocusChanged st newFocusedWindowId = st\<lparr>focusedWindowId := newFocusedWindowId\<rparr>"

text \<open>
  Lines 122 to 131. The listener of \<open>onUpdated\<close> reads \<open>changeInfo.url\<close> and
  \<open>tab.windowId\<close>; it assigns nothing, so it returns the thrown error or the commands.
\<close>

definition tabs_onUpdated :: "state \<Rightarrow> jsval \<Rightarrow> jsval \<Rightarrow> jsval \<Rightarrow> error + command list" where
  "tabs_onUpdated st tabId changeInfo_url tab_windowId =
     (case getCorrespondingTab (tabPairs st) tabId of
        Inl e \<Rightarrow> Inl e
      | Inr correspondingTab \<Rightarrow>
          Inr (if truthy changeInfo_url \<and> truthy correspondingTab
                  \<and> strict_eq tab_windowId (focusedWindowId st)
               then [TabsUpdateUrl correspondingTab changeInfo_url None]
               else []))"

subsection \<open>chrome.windows.onRemoved\<close>

text \<open>Lines 137 to 145.\<close>

definition windows_onRemoved :: "state \<Rightarrow> jsval \<Rightarrow> state" where
  "windows_onRemoved st removedWindowId =
     (if strict_eq removedWindowId (mobileWindowId st)
      then st\<lparr>tabPairs := clearPairings (tabPairs st),
              desktopWindowId := JUndefined,
              mobileWindowId := JUndefined,
              newTabBeingCreated := False,
              focusedWindowId := JUndefined\<rparr>
      else st)"

subsection \<open>chrome.runtime.onMessage\<close>

text \<open>
  Lines 203 to 213. A message is a plain object. \<open>getScrollLock()\<close> belongs to the background page, which
  is not part of this source file: its result is the parameter \<open>scrollLock\<close>.
\<close>

definition runtime_onMessage ::
  "state \<Rightarrow> jsval \<Rightarrow> jsobject \<Rightarrow> jsval \<Rightarrow> error + command list" where
  "runtime_onMessage st scrollLock message sender_tab_id =
     (case getCorrespondingTab (tabPairs st) sender_tab_id of
        Inl e \<Rightarrow> Inl e
      | Inr correspondingTabId \<Rightarrow>
          Inr (if \<not> (truthy (get_prop message (JStr ''scrollPercentage''))
                      \<and> \<not> strict_eq scrollLock (JStr ''on''))
                  \<and> truthy correspondingTabId
               then [TabsSendMessage correspondingTabId message]
               else [ConsoleLog
                 ''Error relaying message: No corresponding tab to receive messsage'']))"

subsection \<open>chrome.webRequest.onBeforeSendHeaders\<close>

text \<open>
  Lines 216 to 231. A request header has a name and a value. \<open>getDevice().ua\<close> also belongs to the
  background page: it is the parameter \<open>ua\<close>.
\<close>

record header =
  hname :: string
  hvalue :: jsval

text \<open>The \<open>for\<close> loop over the headers, from index \<open>i\<close>, with its \<open>break\<close>.\<close>

function set_user_agent :: "jsval \<Rightarrow> nat \<Rightarrow> header list \<Rightarrow> header list" where
  "set_user_agent ua i headers =
     (if i < length headers
      then (if hname (headers ! i) = ''User-Agent''
            then headers[i := (headers ! i)\<lparr>hvalue := ua\<rparr>]
            else set_user_agent ua (i + 1) headers)
      else headers)"
  by pat_completeness auto
termination
  by (relation "measure (\<lambda>(ua, i, headers). length headers - i)") auto

definition webRequest_onBeforeSendHeaders ::
  "state \<Rightarrow> jsval \<Rightarrow> jsval \<Rightarrow> header list \<Rightarrow> error + header list" where
  "webRequest_onBeforeSendHeaders st ua details_tabId headers =
     (case contains (tabPairs st) details_tabId of
        Inl e \<Rightarrow> Inl e
      | Inr known \<Rightarrow>
          (let isMobilePage = (known \<and> \<not> isDesktopTab (tabPairs st) details_tabId) in
           Inr (if isMobilePage then set_user_agent ua 0 headers else headers)))"

section \<open>Property keys of integers\<close>

text \<open>
  Two integers have the same key only when they are equal, and no integer's key is a
  name that \<open>Object.prototype\<close> holds.
\<close>

declare show_nat.simps [simp del]
declare set_user_agent.simps [simp del]

lemma digit_char_inj: "d < 10 \<Longrightarrow> e < 10 \<Longrightarrow> digit_char d = digit_char e \<Longrightarrow> d = e"
proof -
  assume d: "d < 10" and e: "e < 10" and eq: "digit_char d = digit_char e"
  have dist: "distinct ''0123456789''" by simp
  have len: "length ''0123456789'' = 10" by simp
  from eq have "''0123456789'' ! d = ''0123456789'' ! e" by (simp add: digit_char_def)
  with dist d e len show "d = e" by (metis nth_eq_iff_index_eq)
qed

lemma digit_char_in: "d < 10 \<Longrightarrow> digit_char d \<in> set ''0123456789''"
  unfolding digit_char_def by (rule nth_mem) simp

lemma show_nat_nonempty: "show_nat n \<noteq> []"
  by (subst show_nat.simps) simp

lemma show_nat_digits: "set (show_nat n) \<subseteq> set ''0123456789''"
proof (induction n rule: show_nat.induct)
  case (1 n)
  show ?case
  proof (cases "n < 10")
    case True
    then show ?thesis using digit_char_in [of n] by (subst show_nat.simps) simp
  next
    case False
    have "n mod 10 < 10" by simp
    then have "digit_char (n mod 10) \<in> set ''0123456789''" by (rule digit_char_in)
    with False "1.IH" show ?thesis by (subst show_nat.simps) simp
  qed
qed

lemma show_nat_hd: "hd (show_nat n) \<in> set ''0123456789''"
proof -
  have "hd (show_nat n) \<in> set (show_nat n)" using show_nat_nonempty by simp
  with show_nat_digits [of n] show ?thesis by blast
qed

lemma show_nat_inj: "show_nat n = show_nat m \<Longrightarrow> n = m"
proof (induction n arbitrary: m rule: show_nat.induct)
  case (1 n)
  show ?case
  proof (cases "n < 10")
    case n: True
    show ?thesis
    proof (cases "m < 10")
      case True
      with n "1.prems" show ?thesis
        by (simp add: show_nat.simps [of n] show_nat.simps [of m] digit_char_inj)
    next
      case False
      with n "1.prems" show ?thesis
        using show_nat_nonempty [of "m div 10"]
        by (simp add: show_nat.simps [of n] show_nat.simps [of m])
    qed
  next
    case n: False
    show ?thesis
    proof (cases "m < 10")
      case True
      with n "1.prems" show ?thesis
        using show_nat_nonempty [of "n div 10"]
        by (simp add: show_nat.simps [of n] show_nat.simps [of m])
    next
      case False
      with n "1.prems" have eq: "show_nat (n div 10) = show_nat (m div 10)"
        and d: "digit_char (n mod 10) = digit_char (m mod 10)"
        by (simp_all add: show_nat.simps [of n] show_nat.simps [of m])
      from "1.IH" [OF n eq] have "n div 10 = m div 10" .
      moreover from d have "n mod 10 = m mod 10" by (intro digit_char_inj) simp_all
      ultimately show ?thesis by (metis div_mult_mod_eq)
    qed
  qed
qed

lemma show_int_inj [simp]: "show_int a = show_int b \<longleftrightarrow> a = b"
proof
  assume eq: "show_int a = show_int b"
  have nodash: "hd (show_nat n) \<noteq> CHR ''-''" for n
    using show_nat_hd [of n] by auto
  show "a = b"
  proof (cases "a < 0")
    case a: True
    show ?thesis
    proof (cases "b < 0")
      case True
      with a eq have "show_nat (nat (- a)) = show_nat (nat (- b))" by (simp add: show_int_def)
      then have "nat (- a) = nat (- b)" by (rule show_nat_inj)
      with a True show ?thesis by simp
    next
      case False
      with a eq have "CHR ''-'' # show_nat (nat (- a)) = show_nat (nat b)"
        by (simp add: show_int_def)
      then have "hd (show_nat (nat b)) = CHR ''-''" by (metis list.sel(1))
      with nodash show ?thesis by blast
    qed
  next
    case a: False
    show ?thesis
    proof (cases "b < 0")
      case True
      with a eq have "show_nat (nat a) = CHR ''-'' # show_nat (nat (- b))"
        by (simp add: show_int_def)
      then have "hd (show_nat (nat a)) = CHR ''-''" by (metis list.sel(1))
      with nodash show ?thesis by blast
    next
      case False
      with a eq have "show_nat (nat a) = show_nat (nat b)" by (simp add: show_int_def)
      then have "nat a = nat b" by (rule show_nat_inj)
      with a False show ?thesis by simp
    qed
  qed
qed simp

lemma show_int_hd: "show_int a \<noteq> [] \<and> hd (show_int a) \<in> set ''-0123456789''"
  using show_nat_hd [of "nat a"] show_nat_nonempty by (auto simp: show_int_def)

lemma Object_prototype_show_int [simp]: "Object_prototype (show_int a) = None"
proof -
  have "k \<in> dom Object_prototype \<Longrightarrow> hd k \<notin> set ''-0123456789''" for k
    by (auto simp: Object_prototype_def split: if_splits)
  with show_int_hd [of a] show ?thesis by blast
qed

section \<open>The store's methods on integer identifiers\<close>

lemma get_prop_int:
  "get_prop obj (JInt a) = (case obj (show_int a) of Some w \<Rightarrow> w | None \<Rightarrow> JUndefined)"
  by (simp add: get_prop_def split: option.splits)

lemma addPair_int:
  "addPair s (JInt a) (JInt b) =
     (Inr (), s\<lparr>keyedByDesktop := (keyedByDesktop s)(show_int a \<mapsto> JInt b),
                keyedByMobile := (keyedByMobile s)(show_int b \<mapsto> JInt a)\<rparr>)"
  by (simp add: addPair_def set_prop_def)

lemma removeTabPair_int:
  "removeTabPair s (JInt a) =
     (Inr (), s\<lparr>keyedByDesktop := (keyedByDesktop s)(show_int a := None),
                keyedByMobile := (keyedByMobile s)(show_int a := None)\<rparr>)"
  by (simp add: removeTabPair_def delete_prop_def)

lemma getCorrespondingTab_int:
  "getCorrespondingTab s (JInt a) =
     Inr (js_or (js_or (get_prop (keyedByDesktop s) (JInt a))
                   (get_prop (keyedByMobile s) (JInt a)))
            (JBool False))"
  by (simp add: getCorrespondingTab_def)

lemma contains_int:
  "contains s (JInt a) =
     Inr (truthy (get_prop (keyedByDesktop s) (JInt a))
          \<or> truthy (get_prop (keyedByMobile s) (JInt a)))"
  by (simp add: contains_def getCorrespondingTab_def js_or_def)

lemma integer_entries_empty: "integer_entries Map.empty"
  by (simp add: integer_entries_def)

lemma integer_entries_upd:
  "integer_entries obj \<Longrightarrow> integer_entries (obj(show_int a \<mapsto> JInt b))"
  by (auto simp: integer_entries_def)

lemma integer_entries_del: "integer_entries obj \<Longrightarrow> integer_entries (obj(k := None))"
  by (auto simp: integer_entries_def)

lemma integer_store_addPair: "integer_store s \<Longrightarrow> integer_store (snd (addPair s x y))"
  by (cases x; cases y)
    (simp_all add: addPair_def set_prop_def integer_store_def integer_entries_upd)

lemma integer_store_removeTabPair:
  "integer_store s \<Longrightarrow> integer_store (snd (removeTabPair s x))"
  by (cases x)
    (simp_all add: removeTabPair_def delete_prop_def integer_store_def integer_entries_del)

lemma reachable_integer_store: "reachable s \<Longrightarrow> integer_store s"
proof (induction rule: reachable.induct)
  case reachable_new
  show ?case by (simp add: constructor_def integer_store_def integer_entries_empty)
next
  case (reachable_addPair s a b)
  then show ?case by (simp add: integer_store_addPair)
next
  case (reachable_removeTabPair s x)
  then show ?case by (simp add: integer_store_removeTabPair)
next
  case (reachable_clearPairings s)
  show ?case by (simp add: clearPairings_def integer_store_def integer_entries_empty)
qed

section \<open>Pairs under the store's methods\<close>

lemma paired_addPair:
  "paired (snd (addPair s (JInt a) (JInt b))) d m \<Longrightarrow> (d = a \<and> m = b) \<or> paired s d m"
  by (auto simp: paired_def addPair_int split: if_splits)

lemma paired_removeTabPair: "paired (snd (removeTabPair s x)) d m \<Longrightarrow> paired s d m"
  by (cases x) (auto simp: paired_def removeTabPair_def delete_prop_def split: if_splits)

lemma one_to_one_new: "one_to_one constructor"
  by (simp add: one_to_one_def paired_def constructor_def)

lemma one_to_one_clearPairings: "one_to_one (clearPairings s)"
  by (simp add: one_to_one_def paired_def clearPairings_def)

lemma one_to_one_removeTabPair:
  assumes "one_to_one s"
  shows "one_to_one (snd (removeTabPair s x))"
  unfolding one_to_one_def
proof (intro allI impI)
  fix d m d' m'
  assume h: "paired (snd (removeTabPair s x)) d m \<and> paired (snd (removeTabPair s x)) d' m'
       \<and> (d = d' \<or> d = m' \<or> m = d' \<or> m = m')"
  then have "paired s d m" and "paired s d' m'" by (auto dest: paired_removeTabPair)
  with h assms show "d = d' \<and> m = m'" unfolding one_to_one_def by blast
qed

lemma one_to_one_addPair:
  assumes inv: "one_to_one s" and ok: "addable s a b"
  shows "one_to_one (snd (addPair s (JInt a) (JInt b)))"
  unfolding one_to_one_def
proof (intro allI impI)
  fix d m d' m'
  assume h: "paired (snd (addPair s (JInt a) (JInt b))) d m
       \<and> paired (snd (addPair s (JInt a) (JInt b))) d' m'
       \<and> (d = d' \<or> d = m' \<or> m = d' \<or> m = m')"
  then have p: "(d = a \<and> m = b) \<or> paired s d m" and p': "(d' = a \<and> m' = b) \<or> paired s d' m'"
    by (auto dest: paired_addPair)
  from h have share: "d = d' \<or> d = m' \<or> m = d' \<or> m = m'" by blast
  show "d = d' \<and> m = m'"
  proof (cases "d = a \<and> m = b")
    case new: True
    show ?thesis
    proof (cases "d' = a \<and> m' = b")
      case True
      with new show ?thesis by simp
    next
      case False
      with p' have old: "paired s d' m'" by blast
      from share new have "d' = a \<or> m' = a \<or> d' = b \<or> m' = b" by blast
      with old ok have "d' = a \<and> m' = b" unfolding addable_def by blast
      with False show ?thesis by blast
    qed
  next
    case False
    with p have old: "paired s d m" by blast
    show ?thesis
    proof (cases "d' = a \<and> m' = b")
      case True
      with share have "d = a \<or> m = a \<or> d = b \<or> m = b" by blast
      with old ok have "d = a \<and> m = b" unfolding addable_def by blast
      with False show ?thesis by blast
    next
      case False
      with p' have "paired s d' m'" by blast
      with old share inv show ?thesis unfolding one_to_one_def by blast
    qed
  qed
qed

section \<open>The guard of tab creation\<close>

lemma tabs_onCreated_ignored:
  "newTabBeingCreated st \<Longrightarrow> tabs_onCreated st t = ([], st)"
  by (simp add: tabs_onCreated_def)

section \<open>The header loop\<close>

lemma set_user_agent_none:
  "\<forall>k. i \<le> k \<and> k < length hs \<longrightarrow> hname (hs ! k) \<noteq> ''User-Agent'' \<Longrightarrow>
   set_user_agent ua i hs = hs"
proof (induction ua i hs rule: set_user_agent.induct)
  case (1 ua i headers)
  show ?case
  proof (cases "i < length headers")
    case False
    then show ?thesis by (subst set_user_agent.simps) simp
  next
    case True
    with "1.prems" have no: "hname (headers ! i) \<noteq> ''User-Agent''" by simp
    from "1.prems"
    have "\<forall>k. i + 1 \<le> k \<and> k < length headers \<longrightarrow> hname (headers ! k) \<noteq> ''User-Agent''"
      by simp
    from "1.IH" [OF True no this] True no show ?thesis
      by (subst set_user_agent.simps) simp
  qed
qed

lemma set_user_agent_first:
  "i \<le> j \<Longrightarrow> j < length hs \<Longrightarrow> hname (hs ! j) = ''User-Agent'' \<Longrightarrow>
   \<forall>k. i \<le> k \<and> k < j \<longrightarrow> hname (hs ! k) \<noteq> ''User-Agent'' \<Longrightarrow>
   set_user_agent ua i hs = hs[j := (hs ! j)\<lparr>hvalue := ua\<rparr>]"
proof (induction ua i hs rule: set_user_agent.induct)
  case (1 ua i headers)
  from "1.prems" have inb: "i < length headers" by simp
  show ?case
  proof (cases "hname (headers ! i) = ''User-Agent''")
    case True
    have "j = i"
    proof (rule ccontr)
      assume "j \<noteq> i"
      with "1.prems"(1) have "i < j" by simp
      with "1.prems"(4) True show False by blast
    qed
    with True inb show ?thesis by (subst set_user_agent.simps) simp
  next
    case False
    with "1.prems"(3) have "i \<noteq> j" by blast
    with "1.prems"(1) have le: "i + 1 \<le> j" by simp
    from "1.prems"(4)
    have "\<forall>k. i + 1 \<le> k \<and> k < j \<longrightarrow> hname (headers ! k) \<noteq> ''User-Agent''" by simp
    from "1.IH" [OF inb False le "1.prems"(2) "1.prems"(3) this] inb False
    show ?thesis by (subst set_user_agent.simps) simp
  qed
qed

lemma set_user_agent_char:
  "length (set_user_agent ua 0 hs) = length hs \<and>
   (\<forall>j<length hs. set_user_agent ua 0 hs ! j =
     (if hname (hs ! j) = ''User-Agent'' \<and> (\<forall>k<j. hname (hs ! k) \<noteq> ''User-Agent'')
      then (hs ! j)\<lparr>hvalue := ua\<rparr> else hs ! j))"
proof (cases "\<exists>m<length hs. hname (hs ! m) = ''User-Agent''")
  case False
  then have "set_user_agent ua 0 hs = hs" by (intro set_user_agent_none) auto
  with False show ?thesis by auto
next
  case True
  define P where "P m \<longleftrightarrow> m < length hs \<and> hname (hs ! m) = ''User-Agent''" for m
  from True have ex: "\<exists>m. P m" by (auto simp: P_def)
  define m where "m = (LEAST m. P m)"
  from ex have Pm: "P m" unfolding m_def by (metis LeastI)
  have least: "k < m \<Longrightarrow> \<not> P k" for k unfolding m_def by (rule not_less_Least)
  have mlen: "m < length hs" and mua: "hname (hs ! m) = ''User-Agent''"
    using Pm by (simp_all add: P_def)
  have before: "\<forall>k. 0 \<le> k \<and> k < m \<longrightarrow> hname (hs ! k) \<noteq> ''User-Agent''"
  proof (intro allI impI)
    fix k assume "0 \<le> k \<and> k < m"
    then have "k < m" by simp
    with least [of k] mlen show "hname (hs ! k) \<noteq> ''User-Agent''" by (simp add: P_def)
  qed
  have res: "set_user_agent ua 0 hs = hs[m := (hs ! m)\<lparr>hvalue := ua\<rparr>]"
    by (rule set_user_agent_first [OF _ mlen mua before]) simp
  have "set_user_agent ua 0 hs ! j =
     (if hname (hs ! j) = ''User-Agent'' \<and> (\<forall>k<j. hname (hs ! k) \<noteq> ''User-Agent'')
      then (hs ! j)\<lparr>hvalue := ua\<rparr> else hs ! j)" if j: "j < length hs" for j
  proof (cases "j = m")
    case True
    with res mlen mua before show ?thesis by simp
  next
    case False
    have no: "\<not> (hname (hs ! j) = ''User-Agent'' \<and> (\<forall>k<j. hname (hs ! k) \<noteq> ''User-Agent''))"
    proof
      assume a: "hname (hs ! j) = ''User-Agent'' \<and> (\<forall>k<j. hname (hs ! k) \<noteq> ''User-Agent'')"
      with j have "P j" by (simp add: P_def)
      with least [of j] have "\<not> j < m" by blast
      with False have "m < j" by simp
      with a mua show False by blast
    qed
    from res False j have "set_user_agent ua 0 hs ! j = hs ! j" by simp
    with no show ?thesis by (simp only: if_False)
  qed
  with res show ?thesis by simp
qed

section \<open>Claims about the pairing store\<close>

text \<open>
  C6. \<open>addPair\<close> with an argument that is not an integer throws the error of its
  integer check and performs neither of its two assignments: the store after the call
  is the store before it.
\<close>

theorem addPair_non_integer:
  "\<not> (isInteger a \<and> isInteger b) \<Longrightarrow>
   addPair s a b = (Inl (Error ''Tried to insert non-integer into MobileDesktopPairings''), s)"
  by (simp add: addPair_def)

theorem addPair_non_integer_witness:
  "\<not> (isInteger (JFrac ''1.5'') \<and> isInteger (JInt 7)) \<and>
   addPair constructor (JFrac ''1.5'') (JInt 7) =
     (Inl (Error ''Tried to insert non-integer into MobileDesktopPairings''), constructor)"
  using addPair_non_integer [of "JFrac ''1.5''" "JInt 7" constructor] by simp

text \<open>
  C3. After \<open>addPair(a, b)\<close> with integers \<open>a\<close> and \<open>b\<close> that are both non-zero, on a
  store in which \<open>b\<close> is not a desktop-side key (\<open>isDesktopTab(b)\<close> is false) unless
  \<open>b\<close> is \<open>a\<close> itself, the call returns normally, \<open>getCorrespondingTab(a)\<close> is \<open>b\<close>,
  \<open>getCorrespondingTab(b)\<close> is \<open>a\<close>, and \<open>contains(a)\<close> and \<open>contains(b)\<close> are true.
\<close>

theorem addPair_lookup:
  assumes "a \<noteq> 0" and "b \<noteq> 0" and "a = b \<or> \<not> isDesktopTab s (JInt b)"
  shows "fst (addPair s (JInt a) (JInt b)) = Inr ()
    \<and> getCorrespondingTab (snd (addPair s (JInt a) (JInt b))) (JInt a) = Inr (JInt b)
    \<and> getCorrespondingTab (snd (addPair s (JInt a) (JInt b))) (JInt b) = Inr (JInt a)
    \<and> contains (snd (addPair s (JInt a) (JInt b))) (JInt a) = Inr True
    \<and> contains (snd (addPair s (JInt a) (JInt b))) (JInt b) = Inr True"
  using assms
  by (auto simp: addPair_int getCorrespondingTab_int contains_int get_prop_int js_or_def
      isDesktopTab_def split: option.splits)

theorem addPair_lookup_witness:
  "(1::int) \<noteq> 0 \<and> (2::int) \<noteq> 0 \<and> \<not> isDesktopTab constructor (JInt 2)
    \<and> getCorrespondingTab (snd (addPair constructor (JInt 1) (JInt 2))) (JInt 1) = Inr (JInt 2)
    \<and> getCorrespondingTab (snd (addPair constructor (JInt 1) (JInt 2))) (JInt 2) = Inr (JInt 1)
    \<and> contains (snd (addPair constructor (JInt 1) (JInt 2))) (JInt 1) = Inr True
    \<and> contains (snd (addPair constructor (JInt 1) (JInt 2))) (JInt 2) = Inr True"
proof -
  have h: "\<not> isDesktopTab constructor (JInt 2)"
    by (simp add: isDesktopTab_def constructor_def get_prop_int)
  with addPair_lookup [of 1 2 constructor] show ?thesis by simp
qed

text \<open>
  The statement for all integers and any store fails twice. The identifier \<open>0\<close> is
  falsy, so after \<open>addPair(1, 0)\<close> on the new store \<open>getCorrespondingTab(1)\<close> is
  \<open>false\<close> and \<open>contains(1)\<close> is false, and after \<open>addPair(0, 5)\<close> on the new store
  \<open>getCorrespondingTab(5)\<close> is \<open>false\<close>. The desktop side is read first, so after
  \<open>addPair(2, 3)\<close> and then \<open>addPair(1, 2)\<close> the partner reported for \<open>2\<close> is \<open>3\<close>, not \<open>1\<close>.
\<close>

theorem addPair_lookup_counterexample:
  "getCorrespondingTab (snd (addPair constructor (JInt 1) (JInt 0))) (JInt 1) = Inr (JBool False)
   \<and> contains (snd (addPair constructor (JInt 1) (JInt 0))) (JInt 1) = Inr False
   \<and> getCorrespondingTab (snd (addPair constructor (JInt 0) (JInt 5))) (JInt 5) = Inr (JBool False)
   \<and> getCorrespondingTab
       (snd (addPair (snd (addPair constructor (JInt 2) (JInt 3))) (JInt 1) (JInt 2))) (JInt 2)
     = Inr (JInt 3)"
  by (simp add: addPair_int getCorrespondingTab_int contains_int get_prop_int js_or_def
      constructor_def)

text \<open>
  C1. \<open>removeTabPair(a)\<close> deletes the key \<open>a\<close> from both directions and nothing else:
  after \<open>addPair(a, b)\<close> with \<open>a\<close> non-zero and different from \<open>b\<close>, \<open>removeTabPair(a)\<close>
  returns normally and \<open>contains(a)\<close> is false, but the entry that maps \<open>b\<close> back to
  \<open>a\<close> is still there: \<open>contains(b)\<close> is true, and \<open>getCorrespondingTab(b)\<close> is the
  desktop-side partner of \<open>b\<close> if it has a truthy one and \<open>a\<close> otherwise.
\<close>

theorem removeTabPair_keeps_partner:
  assumes "a \<noteq> 0" and "a \<noteq> b"
  shows "fst (removeTabPair (snd (addPair s (JInt a) (JInt b))) (JInt a)) = Inr ()
    \<and> contains (snd (removeTabPair (snd (addPair s (JInt a) (JInt b))) (JInt a))) (JInt a)
        = Inr False
    \<and> contains (snd (removeTabPair (snd (addPair s (JInt a) (JInt b))) (JInt a))) (JInt b)
        = Inr True
    \<and> getCorrespondingTab
        (snd (removeTabPair (snd (addPair s (JInt a) (JInt b))) (JInt a))) (JInt b)
        = Inr (js_or (get_prop (keyedByDesktop s) (JInt b)) (JInt a))"
  using assms
  by (auto simp: addPair_int removeTabPair_int getCorrespondingTab_int contains_int
      get_prop_int js_or_def split: option.splits)

theorem removeTabPair_keeps_partner_witness:
  "(1::int) \<noteq> 0 \<and> (1::int) \<noteq> 2
   \<and> contains (snd (removeTabPair (snd (addPair constructor (JInt 1) (JInt 2))) (JInt 1)))
        (JInt 2) = Inr True
   \<and> getCorrespondingTab
        (snd (removeTabPair (snd (addPair constructor (JInt 1) (JInt 2))) (JInt 1))) (JInt 2)
        = Inr (JInt 1)"
  using removeTabPair_keeps_partner [of 1 2 constructor]
  by (simp add: constructor_def get_prop_int js_or_def)

text \<open>
  X1. \<open>removeTabPair\<close> of an integer that is a key of neither direction returns
  normally and leaves the store as it was.
\<close>

theorem removeTabPair_unknown:
  assumes "keyedByDesktop s (show_int x) = None" and "keyedByMobile s (show_int x) = None"
  shows "removeTabPair s (JInt x) = (Inr (), s)"
  using assms by (simp add: removeTabPair_int fun_upd_idem)

theorem removeTabPair_unknown_witness:
  "keyedByDesktop constructor (show_int 5) = None
   \<and> keyedByMobile constructor (show_int 5) = None
   \<and> removeTabPair constructor (JInt 5) = (Inr (), constructor)"
  using removeTabPair_unknown [of constructor 5] by (simp add: constructor_def)

text \<open>
  C4. In every store reachable by calls of \<open>removeTabPair\<close> and \<open>clearPairings\<close> and
  by calls of \<open>addPair(a, b)\<close> whose identifiers occur in no pair of the store other than
  the pair of \<open>a\<close> and \<open>b\<close> itself, each direction maps integers to integers and each
  identifier appears in at most one pair.
\<close>

theorem one_to_one_reachable_fresh:
  assumes "reachable_fresh s"
  shows "integer_store s \<and> one_to_one s"
  using assms
proof (induction rule: reachable_fresh.induct)
  case fresh_new
  have "integer_store constructor"
    by (simp add: constructor_def integer_store_def integer_entries_empty)
  with one_to_one_new show ?case by blast
next
  case (fresh_addPair s a b)
  then show ?case by (simp add: one_to_one_addPair integer_store_addPair)
next
  case (fresh_removeTabPair s x)
  then show ?case by (simp add: one_to_one_removeTabPair integer_store_removeTabPair)
next
  case (fresh_clearPairings s)
  have "integer_store (clearPairings s)"
    by (simp add: clearPairings_def integer_store_def integer_entries_empty)
  with one_to_one_clearPairings show ?case by blast
qed

theorem one_to_one_reachable_fresh_witness:
  "reachable_fresh
     (snd (removeTabPair
        (snd (addPair (snd (addPair constructor (JInt 1) (JInt 2))) (JInt 3) (JInt 4)))
        (JInt 1)))
   \<and> one_to_one
     (snd (removeTabPair
        (snd (addPair (snd (addPair constructor (JInt 1) (JInt 2))) (JInt 3) (JInt 4)))
        (JInt 1)))
   \<and> paired
     (snd (removeTabPair
        (snd (addPair (snd (addPair constructor (JInt 1) (JInt 2))) (JInt 3) (JInt 4)))
        (JInt 1))) 3 4"
proof -
  have a1: "addable constructor 1 2"
    by (simp add: addable_def paired_def constructor_def)
  have a2: "addable (snd (addPair constructor (JInt 1) (JInt 2))) 3 4"
    by (auto simp: addable_def paired_def constructor_def addPair_int split: if_splits)
  have r: "reachable_fresh
     (snd (removeTabPair
        (snd (addPair (snd (addPair constructor (JInt 1) (JInt 2))) (JInt 3) (JInt 4)))
        (JInt 1)))"
    by (intro fresh_removeTabPair fresh_addPair fresh_new a1 a2)
  have p: "paired
     (snd (removeTabPair
        (snd (addPair (snd (addPair constructor (JInt 1) (JInt 2))) (JInt 3) (JInt 4)))
        (JInt 1))) 3 4"
    by (simp add: paired_def addPair_int removeTabPair_int)
  from one_to_one_reachable_fresh [OF r] r p show ?thesis by blast
qed

text \<open>
  Without that condition on \<open>addPair\<close> the relation is not one to one, and \<open>addPair\<close>
  does not take the prior partner out: after \<open>addPair(1, 2)\<close> and \<open>addPair(1, 3)\<close> on the
  new store, \<open>1\<close> is in the pair with \<open>3\<close> and in the pair with \<open>2\<close>, \<open>contains(2)\<close> is
  true and the partner reported for \<open>2\<close> is \<open>1\<close>, while the partner reported for \<open>1\<close> is
  \<open>3\<close>.
\<close>

theorem one_to_one_counterexample:
  "reachable (snd (addPair (snd (addPair constructor (JInt 1) (JInt 2))) (JInt 1) (JInt 3)))
   \<and> \<not> one_to_one
       (snd (addPair (snd (addPair constructor (JInt 1) (JInt 2))) (JInt 1) (JInt 3)))
   \<and> contains
     (snd (addPair (snd (addPair constructor (JInt 1) (JInt 2))) (JInt 1) (JInt 3))) (JInt 2)
     = Inr True
   \<and> getCorrespondingTab
       (snd (addPair (snd (addPair constructor (JInt 1) (JInt 2))) (JInt 1) (JInt 3))) (JInt 2)
     = Inr (JInt 1)
   \<and> getCorrespondingTab
       (snd (addPair (snd (addPair constructor (JInt 1) (JInt 2))) (JInt 1) (JInt 3))) (JInt 1)
     = Inr (JInt 3)"
proof -
  let ?s = "snd (addPair (snd (addPair constructor (JInt 1) (JInt 2))) (JInt 1) (JInt 3))"
  have r: "reachable ?s" by (intro reachable_addPair reachable_new)
  have p13: "paired ?s 1 3" and p12: "paired ?s 1 2"
    by (simp_all add: paired_def addPair_int)
  have n: "\<not> one_to_one ?s"
  proof
    assume "one_to_one ?s"
    with p13 p12 have "(3::int) = 2" unfolding one_to_one_def by blast
    then show False by simp
  qed
  have "contains ?s (JInt 2) = Inr True"
    "getCorrespondingTab ?s (JInt 2) = Inr (JInt 1)"
    "getCorrespondingTab ?s (JInt 1) = Inr (JInt 3)"
    by (simp_all add: addPair_int getCorrespondingTab_int contains_int get_prop_int js_or_def
      constructor_def)
  with r n show ?thesis by blast
qed

text \<open>
  X2. \<open>addPair(a, c)\<close> after \<open>addPair(a, b)\<close>, on any store, replaces the desktop-side
  partner of \<open>a\<close> by \<open>c\<close> and records \<open>c\<close> back to \<open>a\<close>, and leaves the mobile-side entry
  from \<open>b\<close> back to \<open>a\<close> in place: for \<open>a\<close> non-zero, \<open>contains(b)\<close> is still true.
\<close>

theorem addPair_overwrites_one_direction:
  "keyedByDesktop (snd (addPair (snd (addPair s (JInt a) (JInt b))) (JInt a) (JInt c)))
         (show_int a) = Some (JInt c)
    \<and> keyedByMobile (snd (addPair (snd (addPair s (JInt a) (JInt b))) (JInt a) (JInt c)))
         (show_int c) = Some (JInt a)
    \<and> keyedByMobile (snd (addPair (snd (addPair s (JInt a) (JInt b))) (JInt a) (JInt c)))
         (show_int b) = Some (JInt a)
    \<and> (a \<noteq> 0 \<longrightarrow>
         contains (snd (addPair (snd (addPair s (JInt a) (JInt b))) (JInt a) (JInt c))) (JInt b)
           = Inr True)"
  by (auto simp: addPair_int contains_int get_prop_int split: option.splits)

theorem addPair_overwrites_one_direction_witness:
  "keyedByDesktop
       (snd (addPair (snd (addPair constructor (JInt 1) (JInt 2))) (JInt 1) (JInt 3)))
       (show_int 1) = Some (JInt 3)
   \<and> keyedByMobile
       (snd (addPair (snd (addPair constructor (JInt 1) (JInt 2))) (JInt 1) (JInt 3)))
       (show_int 2) = Some (JInt 1)
   \<and> contains
       (snd (addPair (snd (addPair constructor (JInt 1) (JInt 2))) (JInt 1) (JInt 3)))
       (JInt 2) = Inr True"
  using addPair_overwrites_one_direction [of constructor 1 2 3]
  by simp

text \<open>
  C10. \<open>isDesktopTab\<close> has no integer check: it is a boolean for every input and
  assigns nothing, where \<open>addPair\<close>, \<open>getCorrespondingTab\<close>, \<open>contains\<close> and
  \<open>removeTabPair\<close> throw on every input that is not an integer. It is false whenever
  the key of the input is neither an own key of the desktop-side object nor a name
  inherited from \<open>Object.prototype\<close>; an integer has no inherited name, so it is false for
  every integer that is not a desktop-side key.
\<close>

theorem isDesktopTab_never_throws:
  "(\<not> isInteger x \<longrightarrow>
      fst (addPair s x y) = Inl (Error ''Tried to insert non-integer into MobileDesktopPairings'')
      \<and> fst (addPair s y x) = Inl (Error ''Tried to insert non-integer into MobileDesktopPairings'')
      \<and> getCorrespondingTab s x = Inl (Error ''Given Tab Id is not an integer'')
      \<and> contains s x = Inl (Error ''Given Tab Id is not an integer'')
      \<and> fst (removeTabPair s x) = Inl (Error ''Given Tab Id is not an integer''))
   \<and> (keyedByDesktop s (ToString x) = None \<and> Object_prototype (ToString x) = None
        \<longrightarrow> isDesktopTab s x = False)
   \<and> (keyedByDesktop s (ToString (JInt n)) = None \<longrightarrow> isDesktopTab s (JInt n) = False)"
  by (simp add: addPair_def getCorrespondingTab_def contains_def removeTabPair_def
      isDesktopTab_def get_prop_def)

theorem isDesktopTab_never_throws_witness:
  "\<not> isInteger (JFrac ''1.5'')
   \<and> getCorrespondingTab constructor (JFrac ''1.5'')
       = Inl (Error ''Given Tab Id is not an integer'')
   \<and> keyedByDesktop constructor (ToString (JFrac ''1.5'')) = None
   \<and> Object_prototype (ToString (JFrac ''1.5'')) = None
   \<and> isDesktopTab constructor (JFrac ''1.5'') = False
   \<and> isDesktopTab constructor (JInt 4) = False"
  using isDesktopTab_never_throws [of "JFrac ''1.5''" constructor JNull 4]
  by (simp add: constructor_def Object_prototype_def)

text \<open>
  An input that is not a desktop-side key can still give true: the new store has no
  own property, and \<open>isDesktopTab('constructor')\<close> reads the inherited
  \<open>Object.prototype.constructor\<close>, which is truthy.
\<close>

theorem isDesktopTab_counterexample:
  "keyedByDesktop constructor (ToString (JStr ''constructor'')) = None
   \<and> isDesktopTab constructor (JStr ''constructor'') = True"
  by (simp add: constructor_def isDesktopTab_def get_prop_def Object_prototype_def)

section \<open>Claims about the listeners\<close>

text \<open>
  C5. A tab-created event that arrives while the guard \<open>newTabBeingCreated\<close> is set, or
  whose window is neither the desktop nor the mobile window, makes no call to the host
  and leaves the store and the session state as they were. When the listener does ask
  for a mirror tab it asks for exactly one, leaves the store alone and sets the guard,
  so in the state it leaves every further tab-created event, the one of the mirror tab
  included, is ignored: the guard stays set until the callback of the url update
  releases it.
\<close>

theorem tabs_onCreated_guard:
  "(newTabBeingCreated st
      \<or> (\<not> strict_eq (windowId t) (desktopWindowId st)
          \<and> \<not> strict_eq (windowId t) (mobileWindowId st))
     \<longrightarrow> tabs_onCreated st t = ([], st))
   \<and> (fst (tabs_onCreated st t) \<noteq> []
     \<longrightarrow> (\<exists>w cb. fst (tabs_onCreated st t) = [TabsCreate w cb])
         \<and> tabPairs (snd (tabs_onCreated st t)) = tabPairs st
         \<and> newTabBeingCreated (snd (tabs_onCreated st t))
         \<and> (\<forall>t'. tabs_onCreated (snd (tabs_onCreated st t)) t'
                = ([], snd (tabs_onCreated st t))))"
proof (intro conjI impI)
  assume "newTabBeingCreated st
      \<or> (\<not> strict_eq (windowId t) (desktopWindowId st)
          \<and> \<not> strict_eq (windowId t) (mobileWindowId st))"
  then show "tabs_onCreated st t = ([], st)"
  proof
    assume "newTabBeingCreated st"
    then show ?thesis by (rule tabs_onCreated_ignored)
  next
    assume "\<not> strict_eq (windowId t) (desktopWindowId st)
          \<and> \<not> strict_eq (windowId t) (mobileWindowId st)"
    then show ?thesis by (simp add: tabs_onCreated_def)
  qed
next
  assume issued: "fst (tabs_onCreated st t) \<noteq> []"
  then have clear: "\<not> newTabBeingCreated st"
    using tabs_onCreated_ignored [of st t] by auto
  from issued have tracked: "strict_eq (windowId t) (desktopWindowId st)
      \<or> strict_eq (windowId t) (mobileWindowId st)"
    by (auto simp: tabs_onCreated_def Let_def split: if_splits)
  from clear tracked
  have after: "snd (tabs_onCreated st t) = st\<lparr>newTabBeingCreated := True\<rparr>"
    by (auto simp: tabs_onCreated_def Let_def)
  from clear tracked show "\<exists>w cb. fst (tabs_onCreated st t) = [TabsCreate w cb]"
    by (auto simp: tabs_onCreated_def Let_def)
  from after show "tabPairs (snd (tabs_onCreated st t)) = tabPairs st" by simp
  from after show set: "newTabBeingCreated (snd (tabs_onCreated st t))" by simp
  from set show "\<forall>t'. tabs_onCreated (snd (tabs_onCreated st t)) t'
                = ([], snd (tabs_onCreated st t))"
    by (simp add: tabs_onCreated_ignored)
qed

theorem tabs_onCreated_guard_witness:
  "tabs_onCreated
     (initial\<lparr>desktopWindowId := JInt 10, mobileWindowId := JInt 20\<rparr>)
     \<lparr>tab_id = JInt 5, windowId = JInt 30, url = JStr ''https://x.com''\<rparr>
     = ([], initial\<lparr>desktopWindowId := JInt 10, mobileWindowId := JInt 20\<rparr>)
   \<and> fst (tabs_onCreated
     (initial\<lparr>desktopWindowId := JInt 10, mobileWindowId := JInt 20\<rparr>)
     \<lparr>tab_id = JInt 3, windowId = JInt 10, url = JStr ''https://x.com''\<rparr>)
     = [TabsCreate (JInt 20) (UserTabInDesktop (JInt 3) (JStr ''https://x.com''))]
   \<and> tabs_onCreated
        (snd (tabs_onCreated
          (initial\<lparr>desktopWindowId := JInt 10, mobileWindowId := JInt 20\<rparr>)
          \<lparr>tab_id = JInt 3, windowId = JInt 10, url = JStr ''https://x.com''\<rparr>))
        \<lparr>tab_id = JInt 4, windowId = JInt 20, url = JUndefined\<rparr>
     = ([], initial\<lparr>desktopWindowId := JInt 10, mobileWindowId := JInt 20,
              newTabBeingCreated := True\<rparr>)"
  using tabs_onCreated_guard
    [of "initial\<lparr>desktopWindowId := JInt 10, mobileWindowId := JInt 20\<rparr>"
        "\<lparr>tab_id = JInt 5, windowId = JInt 30, url = JStr ''https://x.com''\<rparr>"]
    tabs_onCreated_guard
    [of "initial\<lparr>desktopWindowId := JInt 10, mobileWindowId := JInt 20\<rparr>"
        "\<lparr>tab_id = JInt 3, windowId = JInt 10, url = JStr ''https://x.com''\<rparr>"]
  by (simp add: tabs_onCreated_def initial_def strict_eq_def)

text \<open>
  C7. For a tab-updated event with a url (a truthy \<open>changeInfo.url\<close>) on the tab with
  the integer identifier \<open>t\<close>, in a store where every partner stored for \<open>t\<close> is truthy
  (for an identifier: non-zero): when \<open>t\<close> has a pair in the store and the window of the
  tab is the recorded focused window, the listener asks the host to navigate a stored
  partner of \<open>t\<close> to that url, the desktop-side one when there is one; in every other
  case (no pair, or a window that is not the focused one) it makes no call.
\<close>

theorem tabs_onUpdated_navigates:
  assumes "truthy u" and "\<forall>p. has_pair (tabPairs st) t p \<longrightarrow> truthy p"
  shows "((\<exists>p. has_pair (tabPairs st) t p) \<and> strict_eq w (focusedWindowId st)
      \<longrightarrow> (\<exists>p. has_pair (tabPairs st) t p
            \<and> tabs_onUpdated st (JInt t) u w = Inr [TabsUpdateUrl p u None]))
    \<and> (keyedByDesktop (tabPairs st) (show_int t) = Some d \<and> strict_eq w (focusedWindowId st)
      \<longrightarrow> tabs_onUpdated st (JInt t) u w = Inr [TabsUpdateUrl d u None])
    \<and> (\<not> ((\<exists>p. has_pair (tabPairs st) t p) \<and> strict_eq w (focusedWindowId st))
      \<longrightarrow> tabs_onUpdated st (JInt t) u w = Inr [])"
proof (intro conjI impI)
  assume h: "(\<exists>p. has_pair (tabPairs st) t p) \<and> strict_eq w (focusedWindowId st)"
  then have foc: "strict_eq w (focusedWindowId st)" by blast
  show "\<exists>p. has_pair (tabPairs st) t p
            \<and> tabs_onUpdated st (JInt t) u w = Inr [TabsUpdateUrl p u None]"
  proof (cases "keyedByDesktop (tabPairs st) (show_int t)")
    case (Some d)
    then have hp: "has_pair (tabPairs st) t d" by (simp add: has_pair_def)
    with assms(2) have "truthy d" by blast
    with Some foc assms(1)
    have "tabs_onUpdated st (JInt t) u w = Inr [TabsUpdateUrl d u None]"
      by (simp add: tabs_onUpdated_def getCorrespondingTab_int get_prop_int js_or_def)
    with hp show ?thesis by blast
  next
    case None
    with h obtain m where m: "keyedByMobile (tabPairs st) (show_int t) = Some m"
      by (auto simp: has_pair_def)
    then have hp: "has_pair (tabPairs st) t m" by (simp add: has_pair_def)
    with assms(2) have "truthy m" by blast
    with None m foc assms(1)
    have "tabs_onUpdated st (JInt t) u w = Inr [TabsUpdateUrl m u None]"
      by (simp add: tabs_onUpdated_def getCorrespondingTab_int get_prop_int js_or_def)
    with hp show ?thesis by blast
  qed
next
  assume h: "keyedByDesktop (tabPairs st) (show_int t) = Some d
     \<and> strict_eq w (focusedWindowId st)"
  then have "has_pair (tabPairs st) t d" by (simp add: has_pair_def)
  with assms(2) have "truthy d" by blast
  with h assms(1) show "tabs_onUpdated st (JInt t) u w = Inr [TabsUpdateUrl d u None]"
    by (simp add: tabs_onUpdated_def getCorrespondingTab_int get_prop_int js_or_def)
next
  assume h: "\<not> ((\<exists>p. has_pair (tabPairs st) t p) \<and> strict_eq w (focusedWindowId st))"
  show "tabs_onUpdated st (JInt t) u w = Inr []"
  proof (cases "strict_eq w (focusedWindowId st)")
    case False
    then show ?thesis by (simp add: tabs_onUpdated_def getCorrespondingTab_int)
  next
    case True
    with h have "keyedByDesktop (tabPairs st) (show_int t) = None"
      and "keyedByMobile (tabPairs st) (show_int t) = None"
      by (simp_all add: has_pair_def not_Some_eq [symmetric] del: not_Some_eq)
    then show ?thesis
      by (simp add: tabs_onUpdated_def getCorrespondingTab_int get_prop_int js_or_def)
  qed
qed

theorem tabs_onUpdated_navigates_witness:
  "truthy (JStr ''https://x.com'')
   \<and> has_pair (snd (addPair constructor (JInt 1) (JInt 2))) 1 (JInt 2)
   \<and> has_pair (snd (addPair constructor (JInt 1) (JInt 2))) 2 (JInt 1)
   \<and> tabs_onUpdated
       (initial\<lparr>tabPairs := snd (addPair constructor (JInt 1) (JInt 2)),
                focusedWindowId := JInt 10\<rparr>)
       (JInt 1) (JStr ''https://x.com'') (JInt 10)
     = Inr [TabsUpdateUrl (JInt 2) (JStr ''https://x.com'') None]
   \<and> tabs_onUpdated
       (initial\<lparr>tabPairs := snd (addPair constructor (JInt 1) (JInt 2)),
                focusedWindowId := JInt 20\<rparr>)
       (JInt 2) (JStr ''https://x.com'') (JInt 20)
     = Inr [TabsUpdateUrl (JInt 1) (JStr ''https://x.com'') None]
   \<and> tabs_onUpdated
       (initial\<lparr>tabPairs := snd (addPair constructor (JInt 1) (JInt 2)),
                focusedWindowId := JInt 10\<rparr>)
       (JInt 2) (JStr ''https://x.com'') (JInt 20)
     = Inr []
   \<and> tabs_onUpdated
       (initial\<lparr>tabPairs := snd (addPair constructor (JInt 1) (JInt 2)),
                focusedWindowId := JInt 10\<rparr>)
       (JInt 7) (JStr ''https://x.com'') (JInt 10)
     = Inr []"
proof -
  let ?s = "snd (addPair constructor (JInt 1) (JInt 2))"
  let ?u = "JStr ''https://x.com''"
  let ?st = "\<lambda>f. initial\<lparr>tabPairs := ?s, focusedWindowId := JInt f\<rparr>"
  have u: "truthy ?u" by simp
  have hp: "has_pair ?s t p \<longleftrightarrow> (t = 1 \<and> p = JInt 2) \<or> (t = 2 \<and> p = JInt 1)" for t p
    by (auto simp: has_pair_def addPair_int constructor_def split: if_splits)
  have ok: "\<forall>p. has_pair (tabPairs (?st f)) t p \<longrightarrow> truthy p" for f t
    by (auto simp: hp)
  have kd: "keyedByDesktop (tabPairs (?st 10)) (show_int 1) = Some (JInt 2)"
    by (simp add: addPair_int)
  have c1: "tabs_onUpdated (?st 10) (JInt 1) ?u (JInt 10) = Inr [TabsUpdateUrl (JInt 2) ?u None]"
    using tabs_onUpdated_navigates [OF u ok, of 10 1 "JInt 10" "JInt 2"] kd
    by (simp add: strict_eq_def)
  have "\<exists>p. has_pair (tabPairs (?st 20)) 2 p
        \<and> tabs_onUpdated (?st 20) (JInt 2) ?u (JInt 20) = Inr [TabsUpdateUrl p ?u None]"
    using tabs_onUpdated_navigates [OF u ok, of 20 2 "JInt 20" JNull]
    by (simp add: strict_eq_def hp)
  then have c2: "tabs_onUpdated (?st 20) (JInt 2) ?u (JInt 20)
      = Inr [TabsUpdateUrl (JInt 1) ?u None]"
    by (auto simp: hp)
  have c3: "tabs_onUpdated (?st 10) (JInt 2) ?u (JInt 20) = Inr []"
    using tabs_onUpdated_navigates [OF u ok, of 10 2 "JInt 20" JNull]
    by (simp add: strict_eq_def)
  have c4: "tabs_onUpdated (?st 10) (JInt 7) ?u (JInt 10) = Inr []"
    using tabs_onUpdated_navigates [OF u ok, of 10 7 "JInt 10" JNull]
    by (simp add: hp)
  from u c1 c2 c3 c4 show ?thesis by (simp add: hp)
qed

text \<open>
  Without the condition on the partners the call can be missing for a tab that has a
  pair: after \<open>addPair(1, 0)\<close> the store holds the partner \<open>0\<close> for tab \<open>1\<close>, and an update
  of tab \<open>1\<close> in the focused window makes no call, because \<open>0\<close> is falsy.
\<close>

theorem tabs_onUpdated_counterexample:
  "truthy (JStr ''https://x.com'')
   \<and> has_pair (snd (addPair constructor (JInt 1) (JInt 0))) 1 (JInt 0)
   \<and> strict_eq (JInt 10)
       (focusedWindowId (initial\<lparr>tabPairs := snd (addPair constructor (JInt 1) (JInt 0)),
                focusedWindowId := JInt 10\<rparr>))
   \<and> tabs_onUpdated
       (initial\<lparr>tabPairs := snd (addPair constructor (JInt 1) (JInt 0)),
                focusedWindowId := JInt 10\<rparr>)
       (JInt 1) (JStr ''https://x.com'') (JInt 10)
     = Inr []"
  by (simp add: has_pair_def addPair_int constructor_def strict_eq_def tabs_onUpdated_def
      getCorrespondingTab_int get_prop_int js_or_def)

text \<open>
  C8. When the removed window is the mobile window, the listener leaves exactly the
  initial state, whatever the store and the session state were: the store is empty,
  so \<open>contains\<close> is false for every integer, both window identifiers and the focused
  window are undefined and the guard is clear.
\<close>

theorem windows_onRemoved_resets:
  assumes "strict_eq w (mobileWindowId st)"
  shows "windows_onRemoved st w = initial
    \<and> (\<forall>x. contains (tabPairs (windows_onRemoved st w)) (JInt x) = Inr False)"
  using assms
  by (simp add: windows_onRemoved_def initial_def clearPairings_def constructor_def
      contains_int get_prop_int)

theorem windows_onRemoved_resets_witness:
  "strict_eq (JInt 20) (JInt 20)
   \<and> windows_onRemoved
       \<lparr>tabPairs = snd (addPair (snd (addPair constructor (JInt 1) (JInt 2))) (JInt 3) (JInt 4)),
        desktopWindowId = JInt 10, mobileWindowId = JInt 20, newTabBeingCreated = True,
        focusedWindowId = JInt 10\<rparr> (JInt 20) = initial
   \<and> contains (tabPairs (windows_onRemoved
       \<lparr>tabPairs = snd (addPair (snd (addPair constructor (JInt 1) (JInt 2))) (JInt 3) (JInt 4)),
        desktopWindowId = JInt 10, mobileWindowId = JInt 20, newTabBeingCreated = True,
        focusedWindowId = JInt 10\<rparr> (JInt 20))) (JInt 3) = Inr False"
proof -
  let ?st = "\<lparr>tabPairs =
        snd (addPair (snd (addPair constructor (JInt 1) (JInt 2))) (JInt 3) (JInt 4)),
      desktopWindowId = JInt 10, mobileWindowId = JInt 20, newTabBeingCreated = True,
      focusedWindowId = JInt 10\<rparr>"
  have h: "strict_eq (JInt 20) (mobileWindowId ?st)" by (simp add: strict_eq_def)
  from windows_onRemoved_resets [OF h]
  have a: "windows_onRemoved ?st (JInt 20) = initial"
    and b: "\<forall>x. contains (tabPairs (windows_onRemoved ?st (JInt 20))) (JInt x) = Inr False"
    by blast+
  from b have c: "contains (tabPairs (windows_onRemoved ?st (JInt 20))) (JInt 3) = Inr False"
    by (rule spec)
  have "strict_eq (JInt 20) (JInt 20)" by (simp add: strict_eq_def)
  with a c show ?thesis by blast
qed

text \<open>
  C2. For a message with a truthy \<open>scrollPercentage\<close> from a tab whose pair is \<open>p\<close>, the
  listener relays the message to \<open>p\<close> exactly when the scroll-lock setting is \<open>'on'\<close>;
  with any other setting it relays nothing and logs its error line. This is the reverse
  of the comment above the test, which says that scrolling messages are stubbed out
  when scrolling is locked.
\<close>

theorem runtime_onMessage_scroll:
  assumes "truthy (get_prop message (JStr ''scrollPercentage''))"
    and "getCorrespondingTab (tabPairs st) (JInt t) = Inr p" and "truthy p"
  shows "runtime_onMessage st scrollLock message (JInt t) =
     Inr (if strict_eq scrollLock (JStr ''on'')
          then [TabsSendMessage p message]
          else [ConsoleLog ''Error relaying message: No corresponding tab to receive messsage''])"
  using assms by (simp add: runtime_onMessage_def)

theorem runtime_onMessage_scroll_witness:
  "truthy (get_prop [''scrollPercentage'' \<mapsto> JInt 50] (JStr ''scrollPercentage''))
   \<and> getCorrespondingTab (snd (addPair constructor (JInt 1) (JInt 2))) (JInt 1) = Inr (JInt 2)
   \<and> truthy (JInt 2)
   \<and> runtime_onMessage (initial\<lparr>tabPairs := snd (addPair constructor (JInt 1) (JInt 2))\<rparr>)
        (JStr ''on'') [''scrollPercentage'' \<mapsto> JInt 50] (JInt 1)
      = Inr [TabsSendMessage (JInt 2) [''scrollPercentage'' \<mapsto> JInt 50]]
   \<and> runtime_onMessage (initial\<lparr>tabPairs := snd (addPair constructor (JInt 1) (JInt 2))\<rparr>)
        (JStr ''off'') [''scrollPercentage'' \<mapsto> JInt 50] (JInt 1)
      = Inr [ConsoleLog ''Error relaying message: No corresponding tab to receive messsage'']"
proof -
  have a: "truthy (get_prop [''scrollPercentage'' \<mapsto> JInt 50] (JStr ''scrollPercentage''))"
    by (simp add: get_prop_def)
  have b: "getCorrespondingTab
      (tabPairs (initial\<lparr>tabPairs := snd (addPair constructor (JInt 1) (JInt 2))\<rparr>)) (JInt 1)
      = Inr (JInt 2)"
    by (simp add: addPair_int getCorrespondingTab_int get_prop_int js_or_def constructor_def)
  have c: "truthy (JInt 2)" by simp
  from runtime_onMessage_scroll [OF a b c, of "JStr ''on''"]
    runtime_onMessage_scroll [OF a b c, of "JStr ''off''"] a b c
  show ?thesis by (simp add: strict_eq_def)
qed

text \<open>
  C9. For a request of the tab with the integer identifier \<open>t\<close>: when the tab is a
  known mobile-side tab (\<open>contains(t)\<close> is true and \<open>isDesktopTab(t)\<close> is false) the
  listener returns a header list of the same length in which the first header named
  exactly \<open>User-Agent\<close> has the device's user agent as its value and every other header
  is the one received; otherwise it returns the header list it received.
\<close>

theorem onBeforeSendHeaders_user_agent:
  "(contains (tabPairs st) (JInt t) = Inr True \<and> \<not> isDesktopTab (tabPairs st) (JInt t)
      \<longrightarrow> (\<exists>hs'. webRequest_onBeforeSendHeaders st ua (JInt t) hs = Inr hs'
            \<and> length hs' = length hs
            \<and> (\<forall>j<length hs. hs' ! j =
                 (if hname (hs ! j) = ''User-Agent''
                     \<and> (\<forall>k<j. hname (hs ! k) \<noteq> ''User-Agent'')
                  then (hs ! j)\<lparr>hvalue := ua\<rparr> else hs ! j))))
   \<and> (\<not> (contains (tabPairs st) (JInt t) = Inr True \<and> \<not> isDesktopTab (tabPairs st) (JInt t))
      \<longrightarrow> webRequest_onBeforeSendHeaders st ua (JInt t) hs = Inr hs)"
  using set_user_agent_char [of ua hs]
  by (auto simp: webRequest_onBeforeSendHeaders_def contains_int Let_def)

theorem onBeforeSendHeaders_user_agent_witness:
  "contains (snd (addPair constructor (JInt 1) (JInt 2))) (JInt 2) = Inr True
   \<and> \<not> isDesktopTab (snd (addPair constructor (JInt 1) (JInt 2))) (JInt 2)
   \<and> (\<exists>hs'. webRequest_onBeforeSendHeaders
          (initial\<lparr>tabPairs := snd (addPair constructor (JInt 1) (JInt 2))\<rparr>)
          (JStr ''Phone'') (JInt 2)
          [\<lparr>hname = ''user-agent'', hvalue = JStr ''lower''\<rparr>,
           \<lparr>hname = ''User-Agent'', hvalue = JStr ''Desktop''\<rparr>,
           \<lparr>hname = ''User-Agent'', hvalue = JStr ''Again''\<rparr>] = Inr hs'
        \<and> hs' ! 0 = \<lparr>hname = ''user-agent'', hvalue = JStr ''lower''\<rparr>
        \<and> hs' ! 1 = \<lparr>hname = ''User-Agent'', hvalue = JStr ''Phone''\<rparr>
        \<and> hs' ! 2 = \<lparr>hname = ''User-Agent'', hvalue = JStr ''Again''\<rparr>)
   \<and> webRequest_onBeforeSendHeaders
          (initial\<lparr>tabPairs := snd (addPair constructor (JInt 1) (JInt 2))\<rparr>)
          (JStr ''Phone'') (JInt 1)
          [\<lparr>hname = ''User-Agent'', hvalue = JStr ''Desktop''\<rparr>]
       = Inr [\<lparr>hname = ''User-Agent'', hvalue = JStr ''Desktop''\<rparr>]"
proof -
  let ?st = "initial\<lparr>tabPairs := snd (addPair constructor (JInt 1) (JInt 2))\<rparr>"
  let ?hs = "[\<lparr>hname = ''user-agent'', hvalue = JStr ''lower''\<rparr>,
           \<lparr>hname = ''User-Agent'', hvalue = JStr ''Desktop''\<rparr>,
           \<lparr>hname = ''User-Agent'', hvalue = JStr ''Again''\<rparr>]"
  have m: "contains (snd (addPair constructor (JInt 1) (JInt 2))) (JInt 2) = Inr True"
    "\<not> isDesktopTab (snd (addPair constructor (JInt 1) (JInt 2))) (JInt 2)"
    by (simp_all add: addPair_int contains_int isDesktopTab_def get_prop_int constructor_def)
  have d: "isDesktopTab (snd (addPair constructor (JInt 1) (JInt 2))) (JInt 1)"
    by (simp add: addPair_int isDesktopTab_def get_prop_int constructor_def)
  from m onBeforeSendHeaders_user_agent [of ?st 2 "JStr ''Phone''" ?hs]
  obtain hs' where r: "webRequest_onBeforeSendHeaders ?st (JStr ''Phone'') (JInt 2) ?hs = Inr hs'"
    and n: "\<forall>j<length ?hs. hs' ! j =
                 (if hname (?hs ! j) = ''User-Agent''
                     \<and> (\<forall>k<j. hname (?hs ! k) \<noteq> ''User-Agent'')
                  then (?hs ! j)\<lparr>hvalue := JStr ''Phone''\<rparr> else ?hs ! j)"
    by auto
  have lt: "(\<forall>k<Suc 0. P k) \<longleftrightarrow> P 0" "(\<forall>k<2::nat. P k) \<longleftrightarrow> P 0 \<and> P 1" for P
    by (auto simp: less_Suc_eq numeral_2_eq_2)
  from n have "hs' ! 0 = \<lparr>hname = ''user-agent'', hvalue = JStr ''lower''\<rparr>" by simp
  moreover from n have "hs' ! 1 = \<lparr>hname = ''User-Agent'', hvalue = JStr ''Phone''\<rparr>"
    by (simp add: lt)
  moreover from n have "hs' ! 2 = \<lparr>hname = ''User-Agent'', hvalue = JStr ''Again''\<rparr>"
    by (simp add: lt)
  moreover from d onBeforeSendHeaders_user_agent
     [of ?st 1 "JStr ''Phone''" "[\<lparr>hname = ''User-Agent'', hvalue = JStr ''Desktop''\<rparr>]"]
  have "webRequest_onBeforeSendHeaders ?st (JStr ''Phone'') (JInt 1)
          [\<lparr>hname = ''User-Agent'', hvalue = JStr ''Desktop''\<rparr>]
       = Inr [\<lparr>hname = ''User-Agent'', hvalue = JStr ''Desktop''\<rparr>]"
    by simp
  ultimately show ?thesis using m r by simp
qed

end
